theory Spec2Isabelle
  imports Main "HOL-Library.Multiset"
begin

section \<open>Schema (shared/schema.js)\<close>

text \<open>
  The five tables of the relational store. A \<open>serial\<close> primary key is a natural
  number, a \<open>timestamp\<close> is a number of milliseconds, a nullable column is an
  \<open>option\<close>. Field names carry the table as a prefix where two tables use the
  same column name.
\<close>

type_synonym time = int

record user =
  user_id :: nat
  username :: "string option"
  walletAddress :: string
  user_createdAt :: time

record room =
  room_id :: nat
  room_name :: string
  isGroup :: bool
  isPublic :: bool
  createdBy :: "nat option"
  room_createdAt :: time

record roomMember =
  member_id :: nat
  member_roomId :: nat
  member_userId :: nat
  joinedAt :: time

record message =
  message_id :: nat
  message_roomId :: nat
  message_userId :: nat
  content :: string
  message_createdAt :: time
  expiresAt :: "time option"

record reaction =
  reaction_id :: nat
  reaction_messageId :: nat
  reaction_userId :: nat
  emoji :: string
  reaction_createdAt :: time

text \<open>
  The database: each table is the list of its rows in insertion order, together with
  the next value of its \<open>serial\<close> sequence, from which the ids of new rows come.
  The embedding covers the queries the code issues and the foreign keys the schema
  declares (\<open>references\<close>, with no \<open>ON DELETE\<close> action): the engine rejects an
  insert that names a row which is not stored, and a delete of a row that another row
  still names, and the storage method throws. Primary-key and unique violations and
  failures of the connection are outside the embedding.
\<close>

record database =
  users :: "user list"
  rooms :: "room list"
  roomMembers :: "roomMember list"
  messages :: "message list"
  reactions :: "reaction list"
  users_seq :: nat
  rooms_seq :: nat
  roomMembers_seq :: nat
  messages_seq :: nat
  reactions_seq :: nat

section \<open>DatabaseStorage (server/storage.js)\<close>

text \<open>
  Every method takes the database and, where it writes, returns the new one beside
  its result. \<open>const [x] = await db.select()...\<close> is the first row of the result, or
  \<open>undefined\<close>: \<open>List.find\<close>. A method that reads the clock (\<open>new Date()\<close>, a
  \<open>defaultNow()\<close> column) takes the time as \<open>now\<close>. A method whose statement
  the engine can reject returns an \<open>option\<close>: \<open>None\<close> is the exception, with
  nothing written.
\<close>

definition userStored :: "database \<Rightarrow> nat \<Rightarrow> bool" where
  "userStored db uid = (\<exists>u\<in>set (users db). user_id u = uid)"

definition roomStored :: "database \<Rightarrow> nat \<Rightarrow> bool" where
  "roomStored db rid = (\<exists>r\<in>set (rooms db). room_id r = rid)"

definition messageStored :: "database \<Rightarrow> nat \<Rightarrow> bool" where
  "messageStored db mid = (\<exists>m\<in>set (messages db). message_id m = mid)"

definition getUser :: "database \<Rightarrow> nat \<Rightarrow> user option" where
  "getUser db uid = List.find (\<lambda>u. user_id u = uid) (users db)"

definition getUserByWallet :: "database \<Rightarrow> string \<Rightarrow> user option" where
  "getUserByWallet db w = List.find (\<lambda>u. walletAddress u = w) (users db)"

definition createUser :: "database \<Rightarrow> time \<Rightarrow> string \<Rightarrow> string option \<Rightarrow> user \<times> database" where
  "createUser db now w uname =
     (let u = \<lparr>user_id = users_seq db, username = uname, walletAddress = w,
                user_createdAt = now\<rparr>
      in (u, db\<lparr>users := users db @ [u], users_seq := users_seq db + 1\<rparr>))"

definition getRoom :: "database \<Rightarrow> nat \<Rightarrow> room option" where
  "getRoom db rid = List.find (\<lambda>r. room_id r = rid) (rooms db)"

text \<open>
  \<open>createRoom(insertRoom)\<close>: both callers pass \<open>name\<close>, \<open>isGroup\<close> and
  \<open>createdBy\<close> and leave \<open>isPublic\<close> to its column default, \<open>false\<close>.
  \<open>created_by\<close> references \<open>users\<close>.
\<close>

definition createRoom ::
  "database \<Rightarrow> time \<Rightarrow> string \<Rightarrow> bool \<Rightarrow> nat option \<Rightarrow> (room \<times> database) option" where
  "createRoom db now nm grp creator =
     (if (case creator of None \<Rightarrow> True | Some c \<Rightarrow> userStored db c) then
        (let r = \<lparr>room_id = rooms_seq db, room_name = nm, isGroup = grp, isPublic = False,
                   createdBy = creator, room_createdAt = now\<rparr>
         in Some (r, db\<lparr>rooms := rooms db @ [r], rooms_seq := rooms_seq db + 1\<rparr>))
      else None)"

text \<open>\<open>room_id\<close> references \<open>rooms\<close> and \<open>user_id\<close> references \<open>users\<close>.\<close>

definition addRoomMember :: "database \<Rightarrow> time \<Rightarrow> nat \<Rightarrow> nat \<Rightarrow> database option" where
  "addRoomMember db now rid uid =
     (if roomStored db rid \<and> userStored db uid then
        Some (db\<lparr>roomMembers := roomMembers db @
                     [\<lparr>member_id = roomMembers_seq db, member_roomId = rid,
                       member_userId = uid, joinedAt = now\<rparr>],
                 roomMembers_seq := roomMembers_seq db + 1\<rparr>)
      else None)"

definition isRoomMember :: "database \<Rightarrow> nat \<Rightarrow> nat \<Rightarrow> bool" where
  "isRoomMember db rid uid =
     (List.find (\<lambda>m. member_roomId m = rid \<and> member_userId m = uid) (roomMembers db) \<noteq> None)"

definition getRoomMembers :: "database \<Rightarrow> nat \<Rightarrow> user list" where
  "getRoomMembers db rid =
     concat (map (\<lambda>m. filter (\<lambda>u. member_userId m = user_id u) (users db))
       (filter (\<lambda>m. member_roomId m = rid) (roomMembers db)))"

text \<open>
  \<open>findPrivateRoom\<close>: the inner join of \<open>room_members\<close> with \<open>rooms\<close>, restricted
  to the first user's rows and to rooms that are neither group nor public; then the
  loop returns the first of these rooms the second user is a member of, or \<open>null\<close>.
\<close>

definition privateRoomsOf :: "database \<Rightarrow> nat \<Rightarrow> room list" where
  "privateRoomsOf db uid =
     concat (map (\<lambda>m. filter (\<lambda>r. member_roomId m = room_id r \<and> \<not> isGroup r \<and> \<not> isPublic r)
                         (rooms db))
       (filter (\<lambda>m. member_userId m = uid) (roomMembers db)))"

definition findPrivateRoom :: "database \<Rightarrow> nat \<Rightarrow> nat \<Rightarrow> room option" where
  "findPrivateRoom db userId1 userId2 =
     List.find (\<lambda>r. isRoomMember db (room_id r) userId2) (privateRoomsOf db userId1)"

text \<open>
  A JavaScript \<open>Date\<close> made from a number of milliseconds: beyond 8640000000000000
  on either side it is the Invalid Date.
\<close>

datatype jsDate = ValidDate time | InvalidDate

definition newDate :: "int \<Rightarrow> jsDate" where
  "newDate e =
     (if - 8640000000000000 \<le> e \<and> e \<le> 8640000000000000 then ValidDate e else InvalidDate)"

text \<open>
  \<open>createMessage(insertMessage)\<close>, with \<open>expiresAt\<close> a \<open>Date\<close> or \<open>null\<close>.
  The insert throws on the Invalid Date (it has no ISO string), on a date that the
  driver and the engine do not take as a value of the \<open>timestamp\<close> column, and on a
  room or user that is not stored. Which valid dates the column takes is the parameter
  \<open>timestampOk\<close>.
\<close>

definition createMessage ::
  "(time \<Rightarrow> bool) \<Rightarrow> database \<Rightarrow> time \<Rightarrow> nat \<Rightarrow> nat \<Rightarrow> string \<Rightarrow> jsDate option
     \<Rightarrow> (message \<times> database) option" where
  "createMessage timestampOk db now rid uid txt exp =
     (case (case exp of
              None \<Rightarrow> Some None
            | Some InvalidDate \<Rightarrow> None
            | Some (ValidDate t) \<Rightarrow> if timestampOk t then Some (Some t) else None) of
        None \<Rightarrow> None
      | Some expires \<Rightarrow>
          if roomStored db rid \<and> userStored db uid then
            (let m = \<lparr>message_id = messages_seq db, message_roomId = rid,
                       message_userId = uid, content = txt, message_createdAt = now,
                       expiresAt = expires\<rparr>
             in Some (m, db\<lparr>messages := messages db @ [m],
                            messages_seq := messages_seq db + 1\<rparr>))
          else None)"

text \<open>
  \<open>getRoomMessages(roomId, limit = 50)\<close>: the room's rows by creation time, newest
  first, cut at \<open>limit\<close>, and reversed. \<open>None\<close> is the omitted argument. The sort
  is stable, so rows of equal creation time keep their table order.
\<close>

definition getRoomMessages :: "database \<Rightarrow> nat \<Rightarrow> nat option \<Rightarrow> message list" where
  "getRoomMessages db rid lim =
     (let limit = (case lim of None \<Rightarrow> 50 | Some l \<Rightarrow> l);
          roomMessages = take limit
            (sort_key (\<lambda>m. - message_createdAt m)
               (filter (\<lambda>m. message_roomId m = rid) (messages db)))
      in rev roomMessages)"

definition expired :: "time \<Rightarrow> message \<Rightarrow> bool" where
  "expired now m = (case expiresAt m of None \<Rightarrow> False | Some e \<Rightarrow> e \<le> now)"

text \<open>
  \<open>deleteExpiredMessages\<close> is one \<open>DELETE\<close> statement: when a reaction still
  names one of the expired messages the engine rejects the statement and no row is
  deleted. Otherwise the method returns \<open>result.length\<close>, the number of deleted rows.
\<close>

definition deleteExpiredMessages :: "database \<Rightarrow> time \<Rightarrow> (nat \<times> database) option" where
  "deleteExpiredMessages db now =
     (let result = filter (expired now) (messages db)
      in if (\<exists>r\<in>set (reactions db). reaction_messageId r \<in> message_id ` set result)
         then None
         else Some (length result,
                    db\<lparr>messages := filter (\<lambda>m. \<not> expired now m) (messages db)\<rparr>))"

definition reaction_key :: "reaction \<Rightarrow> nat \<times> nat \<times> string" where
  "reaction_key r = (reaction_messageId r, reaction_userId r, emoji r)"

text \<open>
  \<open>addReaction\<close> returns the existing row when there is one; else it inserts, and
  \<open>message_id\<close> references \<open>messages\<close>, \<open>user_id\<close> references \<open>users\<close>.
\<close>

definition addReaction ::
  "database \<Rightarrow> time \<Rightarrow> nat \<Rightarrow> nat \<Rightarrow> string \<Rightarrow> (reaction \<times> database) option" where
  "addReaction db now mid uid e =
     (case List.find (\<lambda>r. reaction_key r = (mid, uid, e)) (reactions db) of
        Some existing \<Rightarrow> Some (existing, db)
      | None \<Rightarrow>
          if messageStored db mid \<and> userStored db uid then
            (let r = \<lparr>reaction_id = reactions_seq db, reaction_messageId = mid,
                       reaction_userId = uid, emoji = e, reaction_createdAt = now\<rparr>
             in Some (r, db\<lparr>reactions := reactions db @ [r],
                            reactions_seq := reactions_seq db + 1\<rparr>))
          else None)"

definition removeReaction :: "database \<Rightarrow> nat \<Rightarrow> nat \<Rightarrow> string \<Rightarrow> bool \<times> database" where
  "removeReaction db mid uid e =
     (let result = filter (\<lambda>r. reaction_key r = (mid, uid, e)) (reactions db)
      in (length result > 0,
          db\<lparr>reactions := filter (\<lambda>r. reaction_key r \<noteq> (mid, uid, e)) (reactions db)\<rparr>))"

text \<open>
  \<open>getMessagesReactions\<close>: the reactions of the listed messages joined with their
  users, each row carrying the user's name and wallet address.
\<close>

definition getMessagesReactions :: "database \<Rightarrow> nat list \<Rightarrow> (reaction \<times> string option \<times> string) list" where
  "getMessagesReactions db messageIds =
     (if length messageIds = 0 then []
      else concat (map (\<lambda>r. map (\<lambda>u. (r, username u, walletAddress u))
                             (filter (\<lambda>u. reaction_userId r = user_id u) (users db)))
             (filter (\<lambda>r. reaction_messageId r \<in> set messageIds) (reactions db))))"

text \<open>
  A run of \<open>addReaction\<close> calls, each with its own clock reading; a call that throws
  leaves the database as it was and the run goes on.
\<close>

fun addReactions :: "database \<Rightarrow> (time \<times> nat \<times> nat \<times> string) list \<Rightarrow> database" where
  "addReactions db [] = db"
| "addReactions db ((now, mid, uid, e) # calls) =
     addReactions (case addReaction db now mid uid e of
                     None \<Rightarrow> db
                   | Some (r, db1) \<Rightarrow> db1) calls"

text \<open>At most one reaction row per (message, user, emoji) triple.\<close>

definition one_row_per_triple :: "database \<Rightarrow> bool" where
  "one_row_per_triple db = distinct (map reaction_key (reactions db))"

definition reaction_rows :: "database \<Rightarrow> nat \<Rightarrow> nat \<Rightarrow> string \<Rightarrow> nat" where
  "reaction_rows db mid uid e =
     length (filter (\<lambda>r. reaction_key r = (mid, uid, e)) (reactions db))"

definition empty_db :: database where
  "empty_db = \<lparr>users = [], rooms = [], roomMembers = [], messages = [], reactions = [],
               users_seq = 1, rooms_seq = 1, roomMembers_seq = 1, messages_seq = 1,
               reactions_seq = 1\<rparr>"

section \<open>The server (server.js)\<close>

subsection \<open>State and events\<close>

text \<open>
  The process-wide state: the database behind \<open>storage\<close>, the two maps
  \<open>nonceStore\<close> (wallet address to issued challenge) and \<open>socketToUser\<close> (socket id
  to user id), and the rooms each socket has joined (\<open>socket.join\<close>). A broadcast
  room is named by the decimal string of a room id; the model names it by the id.
\<close>

record nonce_entry =
  nonce :: string
  nonce_message :: string
  nonce_timestamp :: time

record server =
  storage :: database
  nonceStore :: "string \<rightharpoonup> nonce_entry"
  socketToUser :: "string \<rightharpoonup> nat"
  socketRooms :: "(string \<times> nat) set"

text \<open>
  Where an event goes: \<open>socket.emit\<close> (the issuing socket), \<open>io.to(room).emit\<close>
  (every socket of the room), \<open>socket.to(room).emit\<close> (the room but the issuer).
\<close>

datatype target = Socket string | Room nat | RoomExcept nat string

record messageView =
  view_id :: nat
  view_roomId :: nat
  view_userId :: nat
  view_content :: string
  view_timestamp :: time
  view_expiresAt :: "time option"

text \<open>
  The events the modelled handlers emit. \<open>RoomJoined\<close> carries the room, its members
  as (id, username), the messages and the reactions; \<open>NewMessage\<close> the message and
  its author's name; \<open>ReactionAdded\<close> id, messageId, userId, emoji, username and
  walletAddress; \<open>ReactionRemoved\<close> messageId, userId and emoji.
\<close>

datatype payload =
    Error string
  | UserNotFound string
  | RoomCreated room
  | RoomJoined room "(nat \<times> string option) list" "messageView list"
      "(reaction \<times> string option \<times> string) list"
  | UserJoinedRoom nat "string option"
  | NewMessage messageView "string option"
  | UserTyping nat "string option"
  | UserStopTyping nat "string option"
  | ReactionAdded nat nat nat string "string option" string
  | ReactionRemoved nat nat string

type_synonym emitted = "(target \<times> payload) list"

text \<open>
  \<open>const userId = socketToUser.get(socket.id); if (!userId) ...\<close>: the guard holds
  when the socket has no entry and when the entry is 0.
\<close>

definition boundUser :: "server \<Rightarrow> string \<Rightarrow> nat option" where
  "boundUser st sid =
     (case socketToUser st sid of
        None \<Rightarrow> None
      | Some userId \<Rightarrow> if userId = 0 then None else Some userId)"

text \<open>A template literal prints a \<open>null\<close> username as the text null.\<close>

definition shown :: "string option \<Rightarrow> string" where
  "shown v = (case v of None \<Rightarrow> ''null'' | Some s \<Rightarrow> s)"

subsection \<open>Authentication routes\<close>

datatype body = Failure string | Challenge string string | Success user

type_synonym response = "nat \<times> body"

text \<open>
  The outcome of lines 112 to 120 of the verify route, which build the public key and
  call \<open>nacl.sign.detached.verify\<close>: the signature verifies, it does not, or one of
  the two library calls throws (with the exception's message). The route takes this
  check as a parameter, applied to the stored message, the signature and the wallet
  address; the nonce route takes \<open>new PublicKey(walletAddress)\<close> not throwing as the
  predicate \<open>validKey\<close>, and the random nonce as \<open>rnd\<close>.
\<close>

datatype verdict = Valid | Invalid | Throws string

definition challenge_message :: "string \<Rightarrow> string \<Rightarrow> string" where
  "challenge_message n w =
     ''ZKONTROL Authentication'' @ [CHR 0x0A, CHR 0x0A] @
     ''Sign this message to prove you own this wallet.'' @ [CHR 0x0A, CHR 0x0A] @
     ''Nonce: '' @ n @ [CHR 0x0A] @ ''Wallet: '' @ w"

definition auth_nonce ::
  "(string \<Rightarrow> bool) \<Rightarrow> server \<Rightarrow> string option \<Rightarrow> string \<Rightarrow> time \<Rightarrow> server \<times> response" where
  "auth_nonce validKey st wallet rnd now =
     (case wallet of
        None \<Rightarrow> (st, (400, Failure ''Wallet address required''))
      | Some w \<Rightarrow>
          if w = [] then (st, (400, Failure ''Wallet address required''))
          else if \<not> validKey w then (st, (400, Failure ''Invalid wallet address''))
          else
            (let msg = challenge_message rnd w
             in (st\<lparr>nonceStore := (nonceStore st)
                       (w \<mapsto> \<lparr>nonce = rnd, nonce_message = msg, nonce_timestamp = now\<rparr>)\<rparr>,
                 (200, Challenge msg rnd))))"

text \<open>
  The verify route returns the new state, the user id it stores in the session (if
  any) and the response. A missing or empty \<open>walletAddress\<close> or \<open>signature\<close> of
  the request body is falsy.
\<close>

definition authenticate :: "server \<Rightarrow> string \<Rightarrow> string option \<Rightarrow> time \<Rightarrow> server \<times> nat option \<times> response" where
  "authenticate st w uname now =
     (case getUserByWallet (storage st) w of
        Some u \<Rightarrow> (st, Some (user_id u), (200, Success u))
      | None \<Rightarrow>
          (let displayName =
                 (case uname of
                    None \<Rightarrow> ''User_'' @ take 6 w
                  | Some n \<Rightarrow> if n = [] then ''User_'' @ take 6 w else n)
           in case createUser (storage st) now w (Some displayName) of
                (u, db1) \<Rightarrow> (st\<lparr>storage := db1\<rparr>, Some (user_id u), (200, Success u))))"

definition verify_stored ::
  "(string \<Rightarrow> string \<Rightarrow> string \<Rightarrow> verdict) \<Rightarrow> server \<Rightarrow> string \<Rightarrow> string \<Rightarrow> string option \<Rightarrow> time
     \<Rightarrow> server \<times> nat option \<times> response" where
  "verify_stored check st w sg uname now =
     (case nonceStore st w of
        None \<Rightarrow> (st, None, (400, Failure ''No nonce found. Request a nonce first.''))
      | Some stored \<Rightarrow>
          if now - nonce_timestamp stored > 5 * 60 * 1000 then
            (st\<lparr>nonceStore := (nonceStore st)(w := None)\<rparr>, None,
             (400, Failure ''Nonce expired. Request a new nonce.''))
          else
            (case check (nonce_message stored) sg w of
               Throws msg \<Rightarrow> (st, None, (500, Failure msg))
             | Invalid \<Rightarrow> (st, None, (401, Failure ''Invalid signature''))
             | Valid \<Rightarrow>
                 authenticate (st\<lparr>nonceStore := (nonceStore st)(w := None)\<rparr>) w uname now))"

definition auth_verify ::
  "(string \<Rightarrow> string \<Rightarrow> string \<Rightarrow> verdict) \<Rightarrow> server \<Rightarrow> string option \<Rightarrow> string option \<Rightarrow> string option
     \<Rightarrow> time \<Rightarrow> server \<times> nat option \<times> response" where
  "auth_verify check st wallet signature uname now =
     (case (wallet, signature) of
        (Some w, Some sg) \<Rightarrow>
          if w = [] \<or> sg = [] then
            (st, None, (400, Failure ''Wallet address and signature required''))
          else verify_stored check st w sg uname now
      | _ \<Rightarrow> (st, None, (400, Failure ''Wallet address and signature required'')))"

subsection \<open>Socket handlers\<close>

text \<open>
  Each handler takes the state, the id of the issuing socket and the fields of the
  event's data, and returns the new state and the events it emits, in order. Room and
  message ids are the numbers \<open>parseInt\<close> has produced. Where a statement inside
  the handler's \<open>try\<close> throws (a storage method whose statement is rejected, a
  property read on an \<open>undefined\<close> user), the branch is the \<open>catch\<close> block's,
  with what was written before the exception kept.
\<close>

definition notAuthenticated :: "server \<Rightarrow> string \<Rightarrow> server \<times> emitted" where
  "notAuthenticated st sid = (st, [(Socket sid, Error ''Not authenticated'')])"

definition create_private_chat :: "server \<Rightarrow> string \<Rightarrow> string \<Rightarrow> time \<Rightarrow> server \<times> emitted" where
  "create_private_chat st sid recipientWallet now =
     (case boundUser st sid of
        None \<Rightarrow> notAuthenticated st sid
      | Some userId \<Rightarrow>
          (case getUserByWallet (storage st) recipientWallet of
             None \<Rightarrow> (st, [(Socket sid, UserNotFound recipientWallet)])
           | Some recipient \<Rightarrow>
               (case findPrivateRoom (storage st) userId (user_id recipient) of
                  Some existingRoom \<Rightarrow>
                    (st\<lparr>socketRooms := insert (sid, room_id existingRoom) (socketRooms st)\<rparr>,
                     [(Socket sid, RoomCreated existingRoom)])
                | None \<Rightarrow>
                    (case getUser (storage st) userId of
                       None \<Rightarrow> (st, [(Socket sid, Error ''Failed to create private chat'')])
                     | Some currentUser \<Rightarrow>
                         (case createRoom (storage st) now
                                 (shown (username currentUser) @ '' & '' @
                                  shown (username recipient)) False (Some userId) of
                            None \<Rightarrow> (st, [(Socket sid, Error ''Failed to create private chat'')])
                          | Some (r, db1) \<Rightarrow>
                              (case addRoomMember db1 now (room_id r) userId of
                                 None \<Rightarrow>
                                   (st\<lparr>storage := db1\<rparr>,
                                    [(Socket sid, Error ''Failed to create private chat'')])
                               | Some db2 \<Rightarrow>
                                   (case addRoomMember db2 now (room_id r) (user_id recipient) of
                                      None \<Rightarrow>
                                        (st\<lparr>storage := db2\<rparr>,
                                         [(Socket sid, Error ''Failed to create private chat'')])
                                    | Some db3 \<Rightarrow>
                                        (st\<lparr>storage := db3,
                                            socketRooms :=
                                              insert (sid, room_id r) (socketRooms st)\<rparr>,
                                         [(Socket sid, RoomCreated r)]))))))))"

definition view :: "message \<Rightarrow> messageView" where
  "view m = \<lparr>view_id = message_id m, view_roomId = message_roomId m,
             view_userId = message_userId m, view_content = content m,
             view_timestamp = message_createdAt m, view_expiresAt = expiresAt m\<rparr>"

text \<open>\<open>join_room\<close> calls \<open>getRoomMessages(roomIdNum)\<close>, with no limit.\<close>

definition join_room :: "server \<Rightarrow> string \<Rightarrow> nat \<Rightarrow> time \<Rightarrow> server \<times> emitted" where
  "join_room st sid roomIdNum now =
     (case boundUser st sid of
        None \<Rightarrow> notAuthenticated st sid
      | Some userId \<Rightarrow>
          (case getRoom (storage st) roomIdNum of
             None \<Rightarrow> (st, [(Socket sid, Error ''Room not found'')])
           | Some r \<Rightarrow>
               (case (if isRoomMember (storage st) roomIdNum userId then Some (storage st)
                      else addRoomMember (storage st) now roomIdNum userId) of
                  None \<Rightarrow> (st, [(Socket sid, Error ''Failed to join room'')])
                | Some db1 \<Rightarrow>
                    (let st1 = st\<lparr>storage := db1,
                                  socketRooms := insert (sid, roomIdNum) (socketRooms st)\<rparr>;
                         msgs = getRoomMessages db1 roomIdNum None;
                         members = getRoomMembers db1 roomIdNum;
                         allReactions = getMessagesReactions db1 (map message_id msgs);
                         joined = (Socket sid,
                                   RoomJoined r (map (\<lambda>m. (user_id m, username m)) members)
                                     (map view msgs) allReactions)
                     in case getUser db1 userId of
                          None \<Rightarrow> (st1, [joined, (Socket sid, Error ''Failed to join room'')])
                        | Some u \<Rightarrow>
                            (st1, [joined,
                                   (RoomExcept roomIdNum sid,
                                    UserJoinedRoom roomIdNum (username u))])))))"

text \<open>
  \<open>send_message\<close>: \<open>expiresAt ? new Date(expiresAt) : null\<close>, for \<open>expiresAt\<close>
  given as a number of milliseconds; a missing value and 0 are falsy.
\<close>

definition expiryOf :: "time option \<Rightarrow> jsDate option" where
  "expiryOf expAt =
     (case expAt of None \<Rightarrow> None | Some e \<Rightarrow> if e = 0 then None else Some (newDate e))"

definition send_message ::
  "(time \<Rightarrow> bool) \<Rightarrow> server \<Rightarrow> string \<Rightarrow> nat \<Rightarrow> string \<Rightarrow> time option \<Rightarrow> time
     \<Rightarrow> server \<times> emitted" where
  "send_message timestampOk st sid roomIdNum txt expAt now =
     (case boundUser st sid of
        None \<Rightarrow> notAuthenticated st sid
      | Some userId \<Rightarrow>
          if \<not> isRoomMember (storage st) roomIdNum userId then
            (st, [(Socket sid, Error ''Not a member of this room'')])
          else
            (case createMessage timestampOk (storage st) now roomIdNum userId txt
                    (expiryOf expAt) of
               None \<Rightarrow> (st, [(Socket sid, Error ''Failed to send message'')])
             | Some (m, db1) \<Rightarrow>
                 (case getUser db1 userId of
                    None \<Rightarrow> (st\<lparr>storage := db1\<rparr>,
                              [(Socket sid, Error ''Failed to send message'')])
                  | Some u \<Rightarrow>
                      (st\<lparr>storage := db1\<rparr>,
                       [(Room roomIdNum, NewMessage (view m) (username u))]))))"

text \<open>
  \<open>typing\<close> and \<open>stop_typing\<close> run only \<open>if (userId)\<close>, with no \<open>else\<close>; their
  \<open>catch\<close> blocks log and emit nothing. \<open>None\<close> is a missing \<open>roomId\<close>, on which
  \<open>roomId.toString()\<close> throws.
\<close>

definition typing :: "server \<Rightarrow> string \<Rightarrow> nat option \<Rightarrow> server \<times> emitted" where
  "typing st sid roomId =
     (case boundUser st sid of
        None \<Rightarrow> (st, [])
      | Some userId \<Rightarrow>
          (case (roomId, getUser (storage st) userId) of
             (Some r, Some u) \<Rightarrow> (st, [(RoomExcept r sid, UserTyping r (username u))])
           | _ \<Rightarrow> (st, [])))"

definition stop_typing :: "server \<Rightarrow> string \<Rightarrow> nat option \<Rightarrow> server \<times> emitted" where
  "stop_typing st sid roomId =
     (case boundUser st sid of
        None \<Rightarrow> (st, [])
      | Some userId \<Rightarrow>
          (case (roomId, getUser (storage st) userId) of
             (Some r, Some u) \<Rightarrow> (st, [(RoomExcept r sid, UserStopTyping r (username u))])
           | _ \<Rightarrow> (st, [])))"

definition add_reaction ::
  "server \<Rightarrow> string \<Rightarrow> nat \<Rightarrow> string \<Rightarrow> nat \<Rightarrow> time \<Rightarrow> server \<times> emitted" where
  "add_reaction st sid messageIdNum e roomIdNum now =
     (case boundUser st sid of
        None \<Rightarrow> notAuthenticated st sid
      | Some userId \<Rightarrow>
          (case addReaction (storage st) now messageIdNum userId e of
             None \<Rightarrow> (st, [(Socket sid, Error ''Failed to add reaction'')])
           | Some (r, db1) \<Rightarrow>
               (case getUser db1 userId of
                  None \<Rightarrow> (st\<lparr>storage := db1\<rparr>,
                            [(Socket sid, Error ''Failed to add reaction'')])
                | Some u \<Rightarrow>
                    (st\<lparr>storage := db1\<rparr>,
                     [(Room roomIdNum,
                       ReactionAdded (reaction_id r) (reaction_messageId r) (reaction_userId r)
                         (emoji r) (username u) (walletAddress u))]))))"

definition remove_reaction ::
  "server \<Rightarrow> string \<Rightarrow> nat \<Rightarrow> string \<Rightarrow> nat \<Rightarrow> server \<times> emitted" where
  "remove_reaction st sid messageIdNum e roomIdNum =
     (case boundUser st sid of
        None \<Rightarrow> notAuthenticated st sid
      | Some userId \<Rightarrow>
          (case removeReaction (storage st) messageIdNum userId e of
             (removed, db1) \<Rightarrow>
               if removed then
                 (st\<lparr>storage := db1\<rparr>,
                  [(Room roomIdNum, ReactionRemoved messageIdNum userId e)])
               else (st\<lparr>storage := db1\<rparr>, [])))"

subsection \<open>The background job\<close>

text \<open>
  The \<open>setInterval\<close> callback, one tick: it calls \<open>deleteExpiredMessages\<close>, logs
  the count when it is positive, and logs the error when the call throws. It returns
  the new state, the events emitted (it emits none) and what it logged.
\<close>

datatype sweep_log = Quiet | Deleted nat | SweepError

definition sweep_job :: "server \<Rightarrow> time \<Rightarrow> server \<times> emitted \<times> sweep_log" where
  "sweep_job st now =
     (case deleteExpiredMessages (storage st) now of
        None \<Rightarrow> (st, [], SweepError)
      | Some (deletedCount, db1) \<Rightarrow>
          (st\<lparr>storage := db1\<rparr>, [], if deletedCount > 0 then Deleted deletedCount else Quiet))"

definition empty_server :: server where
  "empty_server = \<lparr>storage = empty_db, nonceStore = Map.empty, socketToUser = Map.empty,
                   socketRooms = {}\<rparr>"

section \<open>Predicates and abbreviations of the proofs\<close>

text \<open>
  A pairwise room of two users: a stored room that is neither group nor public and
  has both as members.
\<close>

definition pairwise_room :: "database \<Rightarrow> nat \<Rightarrow> nat \<Rightarrow> room \<Rightarrow> bool" where
  "pairwise_room db a b r =
     (r \<in> set (rooms db) \<and> \<not> isGroup r \<and> \<not> isPublic r \<and>
      isRoomMember db (room_id r) a \<and> isRoomMember db (room_id r) b)"

text \<open>
  The room \<open>create_private_chat\<close> inserts for a caller and a recipient, and the
  database after it has added the room and the two membership rows.
\<close>

definition new_private_room :: "database \<Rightarrow> time \<Rightarrow> user \<Rightarrow> user \<Rightarrow> room" where
  "new_private_room db now cu recipient =
     \<lparr>room_id = rooms_seq db,
      room_name = shown (username cu) @ '' & '' @ shown (username recipient),
      isGroup = False, isPublic = False, createdBy = Some (user_id cu), room_createdAt = now\<rparr>"

definition with_private_room :: "database \<Rightarrow> time \<Rightarrow> user \<Rightarrow> user \<Rightarrow> database" where
  "with_private_room db now cu recipient =
     db\<lparr>rooms := rooms db @ [new_private_room db now cu recipient],
        rooms_seq := rooms_seq db + 1,
        roomMembers := roomMembers db @
          [\<lparr>member_id = roomMembers_seq db, member_roomId = rooms_seq db,
            member_userId = user_id cu, joinedAt = now\<rparr>,
           \<lparr>member_id = roomMembers_seq db + 1, member_roomId = rooms_seq db,
            member_userId = user_id recipient, joinedAt = now\<rparr>],
        roomMembers_seq := roomMembers_seq db + 1 + 1\<rparr>"

text \<open>The \<open>ORDER BY created_at DESC\<close> of \<open>getRoomMessages\<close>.\<close>

definition newest_first :: "message list \<Rightarrow> message list" where
  "newest_first ms = sort_key (\<lambda>m. - message_createdAt m) ms"

text \<open>
  An \<open>expiresAt\<close> of the event's data that \<open>send_message\<close> can store: none, 0 (both
  stored as \<open>null\<close>), or a number of milliseconds in the range of \<open>Date\<close> that the
  column takes; and the value stored for it.
\<close>

definition storableExpiry :: "(time \<Rightarrow> bool) \<Rightarrow> time option \<Rightarrow> bool" where
  "storableExpiry timestampOk expAt =
     (case expAt of
        None \<Rightarrow> True
      | Some e \<Rightarrow> e = 0 \<or> (- 8640000000000000 \<le> e \<and> e \<le> 8640000000000000 \<and> timestampOk e))"

definition storedExpiry :: "time option \<Rightarrow> time option" where
  "storedExpiry expAt =
     (case expAt of None \<Rightarrow> None | Some e \<Rightarrow> if e = 0 then None else Some e)"

section \<open>Example states\<close>

text \<open>
  A toy signature check for the examples: the signature of a message is the message
  behind the prefix \<open>sig:\<close>; every non-empty string is a well-formed key.
\<close>

definition example_check :: "string \<Rightarrow> string \<Rightarrow> string \<Rightarrow> verdict" where
  "example_check m s k = (if s = ''sig:'' @ m then Valid else Invalid)"

definition example_validKey :: "string \<Rightarrow> bool" where
  "example_validKey k = (k \<noteq> [])"

definition example_entry :: nonce_entry where
  "example_entry = \<lparr>nonce = ''n'', nonce_message = challenge_message ''n'' ''W1'',
                     nonce_timestamp = 0\<rparr>"

text \<open>A server that issued a challenge to the wallet \<open>W1\<close> at time 0.\<close>

definition issued_server :: server where
  "issued_server = empty_server\<lparr>nonceStore := [''W1'' \<mapsto> example_entry]\<rparr>"

text \<open>
  A small chat: two users in the public room, one message that expires at 31000 and
  one reaction to it; the sockets \<open>s1\<close> and \<open>s2\<close> are bound to the two users.
\<close>

definition chat_db :: database where
  "chat_db =
     \<lparr>users = [\<lparr>user_id = 1, username = Some ''alice'', walletAddress = ''W1'',
                 user_createdAt = 0\<rparr>,
                \<lparr>user_id = 2, username = Some ''bob'', walletAddress = ''W2'',
                 user_createdAt = 0\<rparr>],
      rooms = [\<lparr>room_id = 1, room_name = ''Public Chat'', isGroup = True, isPublic = True,
                 createdBy = None, room_createdAt = 0\<rparr>],
      roomMembers = [\<lparr>member_id = 1, member_roomId = 1, member_userId = 1, joinedAt = 0\<rparr>,
                      \<lparr>member_id = 2, member_roomId = 1, member_userId = 2, joinedAt = 0\<rparr>],
      messages = [\<lparr>message_id = 1, message_roomId = 1, message_userId = 1,
                    content = ''hello'', message_createdAt = 1000, expiresAt = Some 31000\<rparr>],
      reactions = [\<lparr>reaction_id = 1, reaction_messageId = 1, reaction_userId = 2,
                     emoji = ''ok'', reaction_createdAt = 2000\<rparr>],
      users_seq = 3, rooms_seq = 2, roomMembers_seq = 3, messages_seq = 2,
      reactions_seq = 2\<rparr>"

definition chat_server :: server where
  "chat_server = \<lparr>storage = chat_db, nonceStore = Map.empty,
                  socketToUser = [''s1'' \<mapsto> 1, ''s2'' \<mapsto> 2],
                  socketRooms = {(''s1'', 1), (''s2'', 1)}\<rparr>"

text \<open>The same chat before anyone reacted to the message.\<close>

definition expiring_server :: server where
  "expiring_server = chat_server\<lparr>storage := chat_db\<lparr>reactions := []\<rparr>\<rparr>"

text \<open>
  For the examples the \<open>timestamp\<close> column takes the dates of the years 1970 to 9999.
\<close>

definition example_timestampOk :: "time \<Rightarrow> bool" where
  "example_timestampOk t = (0 \<le> t \<and> t \<le> 253402300799999)"

section \<open>Reactions\<close>

lemma rows_distinct:
  "distinct (map reaction_key rs) \<Longrightarrow>
   length (filter (\<lambda>r. reaction_key r = k) rs) = (if k \<in> reaction_key ` set rs then 1 else 0)"
  by (induction rs) auto

lemma key_mem: "(k \<in> reaction_key ` set rs) = (\<exists>r\<in>set rs. reaction_key r = k)"
  by auto

lemma find_append_new:
  "List.find P xs = None \<Longrightarrow> P x \<Longrightarrow> List.find P (xs @ [x]) = Some x"
  by (induction xs) (auto split: if_splits)

lemma find_key_None:
  "(List.find (\<lambda>r. reaction_key r = k) rs = None) = (k \<notin> reaction_key ` set rs)"
  by (auto simp: find_None_iff)

lemma addReaction_existing:
  assumes "(mid, uid, e) \<in> reaction_key ` set (reactions db)"
  shows "\<exists>r. reaction_key r = (mid, uid, e)
            \<and> (\<forall>now. addReaction db now mid uid e = Some (r, db))"
proof -
  from assms obtain x where
    x: "List.find (\<lambda>r. reaction_key r = (mid, uid, e)) (reactions db) = Some x"
    using find_key_None [of "(mid, uid, e)" "reactions db"] by auto
  then have "reaction_key x = (mid, uid, e)" by (auto simp: find_Some_iff)
  with x show ?thesis by (simp add: addReaction_def)
qed

lemma addReaction_fresh:
  assumes "(mid, uid, e) \<notin> reaction_key ` set (reactions db)"
    and "messageStored db mid" and "userStored db uid"
  shows "addReaction db now mid uid e =
           Some (\<lparr>reaction_id = reactions_seq db, reaction_messageId = mid,
                   reaction_userId = uid, emoji = e, reaction_createdAt = now\<rparr>,
                 db\<lparr>reactions := reactions db @
                        [\<lparr>reaction_id = reactions_seq db, reaction_messageId = mid,
                          reaction_userId = uid, emoji = e, reaction_createdAt = now\<rparr>],
                    reactions_seq := reactions_seq db + 1\<rparr>)"
  using assms find_key_None [of "(mid, uid, e)" "reactions db"]
  by (simp add: addReaction_def Let_def)

lemma addReaction_rejected:
  assumes "(mid, uid, e) \<notin> reaction_key ` set (reactions db)"
    and "\<not> (messageStored db mid \<and> userStored db uid)"
  shows "addReaction db now mid uid e = None"
  using assms find_key_None [of "(mid, uid, e)" "reactions db"]
  by (auto simp: addReaction_def)

lemma addReaction_preserves:
  assumes "one_row_per_triple db" and "addReaction db now mid uid e = Some (r, db1)"
  shows "one_row_per_triple db1"
proof (cases "(mid, uid, e) \<in> reaction_key ` set (reactions db)")
  case True
  from addReaction_existing [OF True] assms show ?thesis by auto
next
  case False
  show ?thesis
  proof (cases "messageStored db mid \<and> userStored db uid")
    case True
    with addReaction_fresh [OF False, of now] assms(2) False assms(1) show ?thesis
      by (auto simp: one_row_per_triple_def reaction_key_def)
  next
    case no: False
    from addReaction_rejected [OF False no, of now] assms(2) show ?thesis by simp
  qed
qed

lemma addReactions_preserves:
  "one_row_per_triple db \<Longrightarrow> one_row_per_triple (addReactions db calls)"
proof (induction db calls rule: addReactions.induct)
  case (1 db)
  then show ?case by simp
next
  case (2 db now mid uid e calls)
  show ?case
  proof (cases "addReaction db now mid uid e")
    case None
    with 2 show ?thesis by simp
  next
    case (Some p)
    obtain r db1 where p: "p = (r, db1)" by (cases p)
    have "one_row_per_triple db1"
      using addReaction_preserves [OF "2.prems"] Some p by simp
    with 2 Some p show ?thesis by simp
  qed
qed

text \<open>
  C8. \<open>addReaction\<close> is idempotent. In a store with at most one reaction row per
  (message, user, emoji) triple, for a stored message and a stored user, two calls
  with the same triple both return the same row and leave exactly one row for the
  triple, the second call changing nothing; and any run of \<open>addReaction\<close> calls keeps
  the store at one row per triple at most.
\<close>

theorem addReaction_idempotent:
  assumes "one_row_per_triple db" and "messageStored db mid" and "userStored db uid"
  shows "\<exists>r db1. addReaction db t1 mid uid e = Some (r, db1)
              \<and> addReaction db1 t2 mid uid e = Some (r, db1)
              \<and> reaction_key r = (mid, uid, e)
              \<and> reaction_rows db1 mid uid e = 1
              \<and> one_row_per_triple db1
              \<and> one_row_per_triple (addReactions db calls)"
proof -
  have run: "one_row_per_triple (addReactions db calls)"
    using assms(1) by (rule addReactions_preserves)
  obtain r db1 where first: "addReaction db t1 mid uid e = Some (r, db1)"
    and key: "reaction_key r = (mid, uid, e)"
    and again: "addReaction db1 t2 mid uid e = Some (r, db1)"
    and has: "(mid, uid, e) \<in> reaction_key ` set (reactions db1)"
  proof (cases "(mid, uid, e) \<in> reaction_key ` set (reactions db)")
    case True
    from addReaction_existing [OF True] obtain x where
      x: "reaction_key x = (mid, uid, e)" "\<forall>now. addReaction db now mid uid e = Some (x, db)"
      by blast
    with True that show ?thesis by blast
  next
    case False
    let ?new = "\<lparr>reaction_id = reactions_seq db, reaction_messageId = mid,
                  reaction_userId = uid, emoji = e, reaction_createdAt = t1\<rparr>"
    let ?db1 = "db\<lparr>reactions := reactions db @ [?new], reactions_seq := reactions_seq db + 1\<rparr>"
    have f: "addReaction db t1 mid uid e = Some (?new, ?db1)"
      by (rule addReaction_fresh [OF False assms(2,3)])
    have k: "reaction_key ?new = (mid, uid, e)" by (simp add: reaction_key_def)
    have "List.find (\<lambda>r. reaction_key r = (mid, uid, e)) (reactions db) = None"
      using False by (simp add: find_key_None)
    then have "List.find (\<lambda>r. reaction_key r = (mid, uid, e)) (reactions ?db1) = Some ?new"
      using k by (simp add: find_append_new)
    then have a: "addReaction ?db1 t2 mid uid e = Some (?new, ?db1)"
      by (simp add: addReaction_def)
    have h: "(mid, uid, e) \<in> reaction_key ` set (reactions ?db1)"
      using k by (simp add: image_iff)
    from f k a h that show ?thesis by blast
  qed
  have inv: "one_row_per_triple db1"
    by (rule addReaction_preserves [OF assms(1) first])
  then have "reaction_rows db1 mid uid e = 1"
    using has by (simp add: reaction_rows_def one_row_per_triple_def rows_distinct)
  with first again key inv run show ?thesis by blast
qed

theorem addReaction_idempotent_witness:
  "one_row_per_triple chat_db \<and> messageStored chat_db 1 \<and> userStored chat_db 1
   \<and> (\<exists>r db1. addReaction chat_db 3000 1 1 ''up'' = Some (r, db1)
            \<and> addReaction db1 4000 1 1 ''up'' = Some (r, db1)
            \<and> reaction_key r = (1, 1, ''up'')
            \<and> reaction_rows db1 1 1 ''up'' = 1
            \<and> one_row_per_triple db1
            \<and> one_row_per_triple
                 (addReactions chat_db
                    [(3000, 1, 1, ''up''), (4000, 1, 1, ''up''), (5000, 1, 2, ''ok''),
                     (6000, 9, 1, ''up'')]))"
proof -
  have h1: "one_row_per_triple chat_db"
    by (simp add: one_row_per_triple_def chat_db_def)
  have h2: "messageStored chat_db 1" by (simp add: messageStored_def chat_db_def)
  have h3: "userStored chat_db 1" by (simp add: userStored_def chat_db_def)
  show ?thesis using h1 h2 h3 addReaction_idempotent [OF h1 h2 h3] by blast
qed

lemma removeReaction_fst:
  "fst (removeReaction db mid uid e) = ((mid, uid, e) \<in> reaction_key ` set (reactions db))"
  by (simp add: removeReaction_def Let_def filter_empty_conv key_mem)

lemma removeReaction_changed:
  "(reactions (snd (removeReaction db mid uid e)) \<noteq> reactions db)
     = ((mid, uid, e) \<in> reaction_key ` set (reactions db))"
  by (simp add: removeReaction_def Let_def filter_id_conv key_mem)

lemma removeReaction_noop:
  assumes "(mid, uid, e) \<notin> reaction_key ` set (reactions db)"
  shows "snd (removeReaction db mid uid e) = db"
proof -
  have "filter (\<lambda>r. reaction_key r \<noteq> (mid, uid, e)) (reactions db) = reactions db"
    using assms by (simp add: filter_id_conv key_mem)
  then show ?thesis by (simp add: removeReaction_def Let_def)
qed

lemma removeReaction_rows:
  "reaction_rows (snd (removeReaction db mid uid e)) mid uid e = 0"
  by (simp add: removeReaction_def Let_def reaction_rows_def)

lemma remove_reaction_unfold:
  assumes "boundUser st sid = Some userId"
  shows "remove_reaction st sid mid e rid =
           (st\<lparr>storage := snd (removeReaction (storage st) mid userId e)\<rparr>,
            if fst (removeReaction (storage st) mid userId e)
            then [(Room rid, ReactionRemoved mid userId e)] else [])"
  using assms by (simp add: remove_reaction_def split: prod.splits)

text \<open>
  C9. For a socket bound to a user: \<open>removeReaction\<close> returns true exactly when it
  changed the reactions table; the handler broadcasts \<open>reaction_removed\<close> to the room
  exactly in that case and emits nothing otherwise. When the user has a row for the
  message and emoji, no such row is left; when there is none, the handler changes
  nothing and emits nothing.
\<close>

theorem remove_reaction_broadcast:
  assumes "boundUser st sid = Some userId"
  shows "fst (removeReaction (storage st) mid userId e)
           = (reactions (snd (removeReaction (storage st) mid userId e)) \<noteq> reactions (storage st))
       \<and> snd (remove_reaction st sid mid e rid)
           = (if reactions (snd (removeReaction (storage st) mid userId e)) \<noteq> reactions (storage st)
              then [(Room rid, ReactionRemoved mid userId e)] else [])
       \<and> (if (mid, userId, e) \<in> reaction_key ` set (reactions (storage st))
           then reaction_rows (storage (fst (remove_reaction st sid mid e rid))) mid userId e = 0
           else remove_reaction st sid mid e rid = (st, []))"
proof (cases "(mid, userId, e) \<in> reaction_key ` set (reactions (storage st))")
  case True
  then show ?thesis
    by (simp add: remove_reaction_unfold [OF assms] removeReaction_fst removeReaction_changed
        removeReaction_rows)
next
  case False
  then show ?thesis
    by (simp add: remove_reaction_unfold [OF assms] removeReaction_fst removeReaction_changed
        removeReaction_noop)
qed

theorem remove_reaction_broadcast_witness:
  "boundUser chat_server ''s2'' = Some 2
   \<and> fst (removeReaction (storage chat_server) 1 2 ''ok'')
       = (reactions (snd (removeReaction (storage chat_server) 1 2 ''ok''))
            \<noteq> reactions (storage chat_server))
   \<and> snd (remove_reaction chat_server ''s2'' 1 ''ok'' 1)
       = (if reactions (snd (removeReaction (storage chat_server) 1 2 ''ok''))
               \<noteq> reactions (storage chat_server)
          then [(Room 1, ReactionRemoved 1 2 ''ok'')] else [])
   \<and> (if (1, 2, ''ok'') \<in> reaction_key ` set (reactions (storage chat_server))
       then reaction_rows (storage (fst (remove_reaction chat_server ''s2'' 1 ''ok'' 1))) 1 2 ''ok'' = 0
       else remove_reaction chat_server ''s2'' 1 ''ok'' 1 = (chat_server, []))"
proof -
  have h: "boundUser chat_server ''s2'' = Some 2"
    by (simp add: boundUser_def chat_server_def)
  show ?thesis by (rule conjI [OF h remove_reaction_broadcast [OF h]])
qed

section \<open>Authentication\<close>

lemma authenticate_user:
  assumes "authenticate st w uname now = (st', sess, resp)"
  shows "\<exists>u. resp = (200, Success u) \<and> walletAddress u = w \<and> sess = Some (user_id u)
           \<and> getUserByWallet (storage st') w = Some u \<and> nonceStore st' = nonceStore st"
proof (cases "getUserByWallet (storage st) w")
  case None
  then show ?thesis using assms
    by (auto simp: authenticate_def createUser_def getUserByWallet_def Let_def find_append_new)
next
  case (Some u)
  then have "walletAddress u = w" by (auto simp: getUserByWallet_def find_Some_iff)
  with Some show ?thesis using assms by (auto simp: authenticate_def)
qed

text \<open>
  C2. For a well-formed, non-empty wallet address, the nonce route followed within
  the five minutes by the verify route, with a non-empty signature that verifies over
  the stored challenge message, succeeds: status 200 with the user of that wallet,
  whose id goes to the session. The challenge is evicted by that success, and a second
  call of the verify route with the same signature, at any later time, answers 400
  with the message that no nonce was found.
\<close>

theorem challenge_single_use:
  assumes "validKey w" and "w \<noteq> []" and "sg \<noteq> []"
    and "verified - issued \<le> 5 * 60 * 1000"
    and "check (challenge_message rnd w) sg w = Valid"
  shows "case auth_nonce validKey st (Some w) rnd issued of
           (stIssued, resp0) \<Rightarrow>
             resp0 = (200, Challenge (challenge_message rnd w) rnd) \<and>
             (case auth_verify check stIssued (Some w) (Some sg) uname verified of
                (stVerified, sess, resp1) \<Rightarrow>
                  (\<exists>u. resp1 = (200, Success u) \<and> walletAddress u = w \<and>
                        sess = Some (user_id u) \<and>
                        getUserByWallet (storage stVerified) w = Some u) \<and>
                  nonceStore stVerified w = None \<and>
                  auth_verify check stVerified (Some w) (Some sg) uname' later =
                    (stVerified, None, (400, Failure ''No nonce found. Request a nonce first.'')))"
proof -
  let ?e = "\<lparr>nonce = rnd, nonce_message = challenge_message rnd w, nonce_timestamp = issued\<rparr>"
  let ?stIssued = "st\<lparr>nonceStore := (nonceStore st)(w \<mapsto> ?e)\<rparr>"
  let ?evicted = "?stIssued\<lparr>nonceStore := (nonceStore ?stIssued)(w := None)\<rparr>"
  have issue: "auth_nonce validKey st (Some w) rnd issued =
                 (?stIssued, (200, Challenge (challenge_message rnd w) rnd))"
    using assms(1,2) by (simp add: auth_nonce_def Let_def)
  have first: "auth_verify check ?stIssued (Some w) (Some sg) uname verified
                 = authenticate ?evicted w uname verified"
    using assms(2-5) by (simp add: auth_verify_def verify_stored_def)
  obtain stVerified sess resp1
    where r: "authenticate ?evicted w uname verified = (stVerified, sess, resp1)"
    by (metis prod_cases3)
  from authenticate_user [OF r] obtain u where
    u: "resp1 = (200, Success u)" "walletAddress u = w" "sess = Some (user_id u)"
       "getUserByWallet (storage stVerified) w = Some u"
    and ns: "nonceStore stVerified = nonceStore ?evicted"
    by blast
  have gone: "nonceStore stVerified w = None" using ns by simp
  then have second: "auth_verify check stVerified (Some w) (Some sg) uname' later =
                       (stVerified, None, (400, Failure ''No nonce found. Request a nonce first.''))"
    using assms(2,3) by (simp add: auth_verify_def verify_stored_def)
  show ?thesis using issue first r u gone second by simp
qed

theorem challenge_single_use_witness:
  "example_validKey ''W1'' \<and> ''W1'' \<noteq> [] \<and> ''sig:'' @ challenge_message ''n'' ''W1'' \<noteq> []
   \<and> (1000::int) - 0 \<le> 5 * 60 * 1000
   \<and> example_check (challenge_message ''n'' ''W1'') (''sig:'' @ challenge_message ''n'' ''W1'') ''W1''
       = Valid
   \<and> (case auth_nonce example_validKey empty_server (Some ''W1'') ''n'' 0 of
        (st1, resp0) \<Rightarrow>
          resp0 = (200, Challenge (challenge_message ''n'' ''W1'') ''n'') \<and>
          (case auth_verify example_check st1 (Some ''W1'')
                  (Some (''sig:'' @ challenge_message ''n'' ''W1'')) None 1000 of
             (st2, sess, resp1) \<Rightarrow>
               (\<exists>u. resp1 = (200, Success u) \<and> walletAddress u = ''W1'' \<and>
                     sess = Some (user_id u) \<and>
                     getUserByWallet (storage st2) ''W1'' = Some u) \<and>
               nonceStore st2 ''W1'' = None \<and>
               auth_verify example_check st2 (Some ''W1'')
                  (Some (''sig:'' @ challenge_message ''n'' ''W1'')) None 2000 =
                 (st2, None, (400, Failure ''No nonce found. Request a nonce first.''))))"
proof -
  have h1: "example_validKey ''W1''" by (simp add: example_validKey_def)
  have h2: "''W1'' \<noteq> []" by simp
  have h3: "''sig:'' @ challenge_message ''n'' ''W1'' \<noteq> []" by simp
  have h4: "(1000::int) - 0 \<le> 5 * 60 * 1000" by simp
  have h5: "example_check (challenge_message ''n'' ''W1'')
              (''sig:'' @ challenge_message ''n'' ''W1'') ''W1'' = Valid"
    by (simp add: example_check_def)
  show ?thesis
    using h1 h2 h3 h4 h5 challenge_single_use [where validKey = example_validKey and check = example_check
        and st = empty_server and uname = None and uname' = None and later = 2000,
        OF h1 h2 h3 h4 h5]
    by blast
qed

text \<open>
  C6. When the stored challenge has not expired and the signature does not verify, the
  verify route answers 401 and returns the state as it was: the nonce-store entry of
  the wallet is the same, and a retry is checked against the same stored message (it
  behaves as it would have on the state before the failed attempt).
\<close>

theorem invalid_signature_keeps_challenge:
  assumes "nonceStore st w = Some stored" and "w \<noteq> []" and "sg \<noteq> []"
    and "now - nonce_timestamp stored \<le> 5 * 60 * 1000"
    and "check (nonce_message stored) sg w = Invalid"
  shows "auth_verify check st (Some w) (Some sg) uname now =
           (st, None, (401, Failure ''Invalid signature''))
       \<and> nonceStore (fst (auth_verify check st (Some w) (Some sg) uname now)) w = Some stored
       \<and> auth_verify check' (fst (auth_verify check st (Some w) (Some sg) uname now))
            (Some w) (Some sg') uname' now'
          = auth_verify check' st (Some w) (Some sg') uname' now'"
  using assms by (simp add: auth_verify_def verify_stored_def)

theorem invalid_signature_keeps_challenge_witness:
  "nonceStore issued_server ''W1'' = Some example_entry \<and> ''W1'' \<noteq> [] \<and> ''bad'' \<noteq> []
   \<and> 1000 - nonce_timestamp example_entry \<le> 5 * 60 * 1000
   \<and> example_check (nonce_message example_entry) ''bad'' ''W1'' = Invalid
   \<and> auth_verify example_check issued_server (Some ''W1'') (Some ''bad'') None 1000 =
           (issued_server, None, (401, Failure ''Invalid signature''))
   \<and> nonceStore (fst (auth_verify example_check issued_server (Some ''W1'') (Some ''bad'') None 1000))
        ''W1'' = Some example_entry
   \<and> auth_verify example_check
        (fst (auth_verify example_check issued_server (Some ''W1'') (Some ''bad'') None 1000))
        (Some ''W1'') (Some (''sig:'' @ challenge_message ''n'' ''W1'')) None 2000
      = auth_verify example_check issued_server (Some ''W1'')
          (Some (''sig:'' @ challenge_message ''n'' ''W1'')) None 2000"
proof -
  have h1: "nonceStore issued_server ''W1'' = Some example_entry"
    by (simp add: issued_server_def)
  have h2: "''W1'' \<noteq> []" by simp
  have h3: "''bad'' \<noteq> []" by simp
  have h4: "1000 - nonce_timestamp example_entry \<le> 5 * 60 * 1000"
    by (simp add: example_entry_def)
  have h5: "example_check (nonce_message example_entry) ''bad'' ''W1'' = Invalid"
    by (simp add: example_check_def)
  show ?thesis
    using h1 h2 h3 h4 h5
      invalid_signature_keeps_challenge [where check = example_check and uname = None
        and check' = example_check and sg' = "''sig:'' @ challenge_message ''n'' ''W1''"
        and uname' = None and now' = 2000, OF h1 h2 h3 h4 h5]
    by blast
qed

text \<open>
  C7. When more than five minutes have passed since the stored challenge was issued,
  the verify route answers 400 with the message that the nonce expired, whatever the
  signature check would say (so also for a correct signature), and it deletes the
  wallet's entry from the nonce store.
\<close>

theorem verify_after_ttl:
  assumes "nonceStore st w = Some stored" and "w \<noteq> []" and "sg \<noteq> []"
    and "now - nonce_timestamp stored > 5 * 60 * 1000"
  shows "auth_verify check st (Some w) (Some sg) uname now =
           (st\<lparr>nonceStore := (nonceStore st)(w := None)\<rparr>, None,
            (400, Failure ''Nonce expired. Request a new nonce.''))
       \<and> nonceStore (fst (auth_verify check st (Some w) (Some sg) uname now)) w = None"
  using assms by (simp add: auth_verify_def verify_stored_def)

theorem verify_after_ttl_witness:
  "nonceStore issued_server ''W1'' = Some example_entry
   \<and> ''W1'' \<noteq> [] \<and> ''sig:'' @ challenge_message ''n'' ''W1'' \<noteq> []
   \<and> 300001 - nonce_timestamp example_entry > 5 * 60 * 1000
   \<and> example_check (nonce_message example_entry) (''sig:'' @ challenge_message ''n'' ''W1'') ''W1''
       = Valid
   \<and> auth_verify example_check issued_server (Some ''W1'')
        (Some (''sig:'' @ challenge_message ''n'' ''W1'')) None 300001 =
           (issued_server\<lparr>nonceStore := (nonceStore issued_server)(''W1'' := None)\<rparr>, None,
            (400, Failure ''Nonce expired. Request a new nonce.''))
   \<and> nonceStore (fst (auth_verify example_check issued_server (Some ''W1'')
        (Some (''sig:'' @ challenge_message ''n'' ''W1'')) None 300001)) ''W1'' = None"
proof -
  have h1: "nonceStore issued_server ''W1'' = Some example_entry"
    by (simp add: issued_server_def)
  have h2: "''W1'' \<noteq> []" by simp
  have h3: "''sig:'' @ challenge_message ''n'' ''W1'' \<noteq> []" by simp
  have h4: "300001 - nonce_timestamp example_entry > 5 * 60 * 1000"
    by (simp add: example_entry_def)
  have h5: "example_check (nonce_message example_entry)
              (''sig:'' @ challenge_message ''n'' ''W1'') ''W1'' = Valid"
    by (simp add: example_check_def example_entry_def)
  show ?thesis
    using h1 h2 h3 h4 h5
      verify_after_ttl [where check = example_check and uname = None, OF h1 h2 h3 h4]
    by blast
qed

section \<open>Connections without a user\<close>

lemma boundUser_None: "socketToUser st sid = None \<Longrightarrow> boundUser st sid = None"
  by (simp add: boundUser_def)

text \<open>
  C3, as the code has it. On a socket with no entry in \<open>socketToUser\<close>, the handlers
  \<open>join_room\<close>, \<open>send_message\<close>, \<open>add_reaction\<close> and \<open>remove_reaction\<close> emit the
  error Not authenticated to that socket and leave the state as it was; \<open>typing\<close> and
  \<open>stop_typing\<close> leave the state as it was and emit nothing at all.
\<close>

theorem unbound_connection:
  assumes "socketToUser st sid = None"
  shows "join_room st sid rid now = (st, [(Socket sid, Error ''Not authenticated'')])
       \<and> send_message timestampOk st sid rid txt expAt now
           = (st, [(Socket sid, Error ''Not authenticated'')])
       \<and> add_reaction st sid mid e rid now = (st, [(Socket sid, Error ''Not authenticated'')])
       \<and> remove_reaction st sid mid e rid = (st, [(Socket sid, Error ''Not authenticated'')])
       \<and> typing st sid r = (st, [])
       \<and> stop_typing st sid r = (st, [])"
  using boundUser_None [OF assms]
  by (simp add: join_room_def send_message_def add_reaction_def remove_reaction_def
      typing_def stop_typing_def notAuthenticated_def)

theorem unbound_connection_witness:
  "socketToUser empty_server ''s1'' = None
   \<and> (join_room empty_server ''s1'' 1 0
         = (empty_server, [(Socket ''s1'', Error ''Not authenticated'')])
       \<and> send_message example_timestampOk empty_server ''s1'' 1 ''hi'' None 0
         = (empty_server, [(Socket ''s1'', Error ''Not authenticated'')])
       \<and> add_reaction empty_server ''s1'' 1 ''ok'' 1 0
         = (empty_server, [(Socket ''s1'', Error ''Not authenticated'')])
       \<and> remove_reaction empty_server ''s1'' 1 ''ok'' 1
         = (empty_server, [(Socket ''s1'', Error ''Not authenticated'')])
       \<and> typing empty_server ''s1'' (Some 1) = (empty_server, [])
       \<and> stop_typing empty_server ''s1'' (Some 1) = (empty_server, []))"
proof -
  have h: "socketToUser empty_server ''s1'' = None" by (simp add: empty_server_def)
  show ?thesis
    using h unbound_connection [OF h, where timestampOk = example_timestampOk] by blast
qed

text \<open>
  The claim as stated fails for \<open>typing\<close>: on a socket with no user the handler emits
  no event, so no Not authenticated error reaches the connection.
\<close>

theorem typing_unbound_counterexample:
  "socketToUser empty_server ''s1'' = None
   \<and> typing empty_server ''s1'' (Some 1) = (empty_server, [])
   \<and> snd (typing empty_server ''s1'' (Some 1)) \<noteq> [(Socket ''s1'', Error ''Not authenticated'')]"
  by (simp add: typing_def boundUser_def empty_server_def)

section \<open>Posting a message\<close>

lemma getUser_stored: "getUser db uid = Some u \<Longrightarrow> userStored db uid"
  by (auto simp: getUser_def userStored_def find_Some_iff)

lemma stored_getUser: "userStored db uid \<Longrightarrow> \<exists>u. getUser db uid = Some u"
  by (cases "getUser db uid") (auto simp: getUser_def userStored_def find_None_iff)

lemma storable_expiryOf:
  "storableExpiry timestampOk expAt =
     (case expiryOf expAt of
        None \<Rightarrow> True
      | Some InvalidDate \<Rightarrow> False
      | Some (ValidDate t) \<Rightarrow> timestampOk t)"
  by (auto simp: storableExpiry_def expiryOf_def newDate_def split: option.splits)

lemma stored_expiryOf:
  "storableExpiry timestampOk expAt \<Longrightarrow>
   (case expiryOf expAt of None \<Rightarrow> None | Some InvalidDate \<Rightarrow> None | Some (ValidDate t) \<Rightarrow> Some t)
     = storedExpiry expAt"
  by (auto simp: storableExpiry_def storedExpiry_def expiryOf_def newDate_def split: option.splits)

lemma createMessage_stored:
  assumes "storableExpiry timestampOk expAt"
    and "roomStored db rid" and "userStored db uid"
  shows "createMessage timestampOk db now rid uid txt (expiryOf expAt) =
           Some (\<lparr>message_id = messages_seq db, message_roomId = rid, message_userId = uid,
                   content = txt, message_createdAt = now, expiresAt = storedExpiry expAt\<rparr>,
                 db\<lparr>messages := messages db @
                        [\<lparr>message_id = messages_seq db, message_roomId = rid,
                          message_userId = uid, content = txt, message_createdAt = now,
                          expiresAt = storedExpiry expAt\<rparr>],
                    messages_seq := messages_seq db + 1\<rparr>)"
  using assms
  by (auto simp: createMessage_def Let_def storableExpiry_def storedExpiry_def expiryOf_def
      newDate_def split: option.splits jsDate.splits)

lemma createMessage_rejected:
  assumes "\<not> (storableExpiry timestampOk expAt \<and> roomStored db rid \<and> userStored db uid)"
  shows "createMessage timestampOk db now rid uid txt (expiryOf expAt) = None"
  using assms
  by (auto simp: createMessage_def Let_def storableExpiry_def expiryOf_def newDate_def
      split: option.splits jsDate.splits)

lemma send_message_unfold:
  assumes "boundUser st sid = Some userId"
  shows "send_message timestampOk st sid rid txt expAt now =
     (if \<not> isRoomMember (storage st) rid userId then
            (st, [(Socket sid, Error ''Not a member of this room'')])
      else (case createMessage timestampOk (storage st) now rid userId txt (expiryOf expAt) of
               None \<Rightarrow> (st, [(Socket sid, Error ''Failed to send message'')])
             | Some (m, db1) \<Rightarrow>
                 (case getUser db1 userId of
                    None \<Rightarrow> (st\<lparr>storage := db1\<rparr>,
                              [(Socket sid, Error ''Failed to send message'')])
                  | Some u \<Rightarrow>
                      (st\<lparr>storage := db1\<rparr>,
                       [(Room rid, NewMessage (view m) (username u))]))))"
  using assms by (simp add: send_message_def)

text \<open>
  C5. For a socket bound to a user: when the user has no membership row for the room,
  \<open>send_message\<close> emits the error Not a member of this room to the socket and
  returns the state as it was, so no message row is stored. When the user is a member,
  the room and the user are stored and the expiry is one the message table can hold
  (none, 0, or a time in the range of \<open>Date\<close> that the timestamp column takes),
  exactly one row is appended to the messages table, with the next value of the id
  sequence as its id and the clock reading as its creation time, and the room receives
  \<open>new_message\<close> carrying that id and timestamp. When the user is a member and the
  insert is rejected, the socket receives the error Failed to send message and the
  state is as it was.
\<close>

theorem send_message_membership:
  assumes "boundUser st sid = Some userId"
  shows "if \<not> isRoomMember (storage st) rid userId
         then send_message timestampOk st sid rid txt expAt now
                = (st, [(Socket sid, Error ''Not a member of this room'')])
         else if storableExpiry timestampOk expAt \<and> roomStored (storage st) rid
                   \<and> userStored (storage st) userId
         then messages (storage (fst (send_message timestampOk st sid rid txt expAt now)))
                = messages (storage st) @
                    [\<lparr>message_id = messages_seq (storage st), message_roomId = rid,
                      message_userId = userId, content = txt, message_createdAt = now,
                      expiresAt = storedExpiry expAt\<rparr>]
            \<and> (\<exists>u. getUser (storage st) userId = Some u
                  \<and> snd (send_message timestampOk st sid rid txt expAt now)
                      = [(Room rid, NewMessage
                           \<lparr>view_id = messages_seq (storage st), view_roomId = rid,
                             view_userId = userId, view_content = txt,
                             view_timestamp = now, view_expiresAt = storedExpiry expAt\<rparr>
                           (username u))])
         else send_message timestampOk st sid rid txt expAt now
                = (st, [(Socket sid, Error ''Failed to send message'')])"
proof (cases "isRoomMember (storage st) rid userId")
  case False
  then show ?thesis by (simp add: send_message_unfold [OF assms])
next
  case True
  show ?thesis
  proof (cases "storableExpiry timestampOk expAt \<and> roomStored (storage st) rid
                  \<and> userStored (storage st) userId")
    case no: False
    show ?thesis
      using True no createMessage_rejected [OF no, of now "txt"]
      by (simp add: send_message_unfold [OF assms])
  next
    case ok: True
    from ok obtain u where u: "getUser (storage st) userId = Some u"
      using stored_getUser by blast
    have cm: "createMessage timestampOk (storage st) now rid userId txt (expiryOf expAt) =
           Some (\<lparr>message_id = messages_seq (storage st), message_roomId = rid,
                   message_userId = userId, content = txt, message_createdAt = now,
                   expiresAt = storedExpiry expAt\<rparr>,
                 (storage st)\<lparr>messages := messages (storage st) @
                        [\<lparr>message_id = messages_seq (storage st), message_roomId = rid,
                          message_userId = userId, content = txt, message_createdAt = now,
                          expiresAt = storedExpiry expAt\<rparr>],
                    messages_seq := messages_seq (storage st) + 1\<rparr>)"
      using ok by (simp add: createMessage_stored)
    show ?thesis
      using True ok u
      by (simp add: send_message_unfold [OF assms] cm getUser_def view_def)
  qed
qed

theorem send_message_membership_witness:
  "boundUser chat_server ''s1'' = Some 1
   \<and> \<not> isRoomMember (storage chat_server) 7 1
   \<and> send_message example_timestampOk chat_server ''s1'' 7 ''hi'' None 4000
       = (chat_server, [(Socket ''s1'', Error ''Not a member of this room'')])
   \<and> isRoomMember (storage chat_server) 1 1
   \<and> storableExpiry example_timestampOk (Some 9000)
   \<and> roomStored (storage chat_server) 1 \<and> userStored (storage chat_server) 1
   \<and> messages (storage (fst (send_message example_timestampOk chat_server ''s1'' 1 ''hi''
                                (Some 9000) 4000)))
       = messages (storage chat_server) @
           [\<lparr>message_id = messages_seq (storage chat_server), message_roomId = 1,
             message_userId = 1, content = ''hi'', message_createdAt = 4000,
             expiresAt = storedExpiry (Some 9000)\<rparr>]
   \<and> (\<exists>u. getUser (storage chat_server) 1 = Some u
         \<and> snd (send_message example_timestampOk chat_server ''s1'' 1 ''hi'' (Some 9000) 4000)
             = [(Room 1, NewMessage
                  \<lparr>view_id = messages_seq (storage chat_server), view_roomId = 1,
                    view_userId = 1, view_content = ''hi'',
                    view_timestamp = 4000, view_expiresAt = storedExpiry (Some 9000)\<rparr>
                  (username u))])
   \<and> \<not> storableExpiry example_timestampOk (Some 8640000000000001)
   \<and> send_message example_timestampOk chat_server ''s1'' 1 ''hi'' (Some 8640000000000001) 4000
       = (chat_server, [(Socket ''s1'', Error ''Failed to send message'')])"
proof -
  have h: "boundUser chat_server ''s1'' = Some 1"
    by (simp add: boundUser_def chat_server_def)
  have h7: "\<not> isRoomMember (storage chat_server) 7 1"
    by (simp add: isRoomMember_def chat_server_def chat_db_def)
  have h1: "isRoomMember (storage chat_server) 1 1"
    by (simp add: isRoomMember_def chat_server_def chat_db_def)
  have ok: "storableExpiry example_timestampOk (Some 9000)"
    by (simp add: storableExpiry_def example_timestampOk_def)
  have rs: "roomStored (storage chat_server) 1"
    by (simp add: roomStored_def chat_server_def chat_db_def)
  have us: "userStored (storage chat_server) 1"
    by (simp add: userStored_def chat_server_def chat_db_def)
  have bad: "\<not> storableExpiry example_timestampOk (Some 8640000000000001)"
    by (simp add: storableExpiry_def)
  have a: "send_message example_timestampOk chat_server ''s1'' 7 ''hi'' None 4000
             = (chat_server, [(Socket ''s1'', Error ''Not a member of this room'')])"
    using send_message_membership [OF h, of 7 example_timestampOk "''hi''" None 4000] h7
    by simp
  have b: "messages (storage (fst (send_message example_timestampOk chat_server ''s1'' 1 ''hi''
                                (Some 9000) 4000)))
       = messages (storage chat_server) @
           [\<lparr>message_id = messages_seq (storage chat_server), message_roomId = 1,
             message_userId = 1, content = ''hi'', message_createdAt = 4000,
             expiresAt = storedExpiry (Some 9000)\<rparr>]
     \<and> (\<exists>u. getUser (storage chat_server) 1 = Some u
         \<and> snd (send_message example_timestampOk chat_server ''s1'' 1 ''hi'' (Some 9000) 4000)
             = [(Room 1, NewMessage
                  \<lparr>view_id = messages_seq (storage chat_server), view_roomId = 1,
                    view_userId = 1, view_content = ''hi'',
                    view_timestamp = 4000, view_expiresAt = storedExpiry (Some 9000)\<rparr>
                  (username u))])"
    using send_message_membership [OF h, of 1 example_timestampOk "''hi''" "Some 9000" 4000]
      h1 ok rs us
    by simp
  have c: "send_message example_timestampOk chat_server ''s1'' 1 ''hi''
             (Some 8640000000000001) 4000
           = (chat_server, [(Socket ''s1'', Error ''Failed to send message'')])"
    using send_message_membership
            [OF h, of 1 example_timestampOk "''hi''" "Some 8640000000000001" 4000] h1 bad
    by simp
  show ?thesis using h h7 a h1 ok rs us b bad c by blast
qed

section \<open>Private rooms\<close>

lemma isRoomMember_iff:
  "isRoomMember db rid uid =
     (\<exists>m\<in>set (roomMembers db). member_roomId m = rid \<and> member_userId m = uid)"
  by (auto simp: isRoomMember_def find_None_iff)

lemma set_privateRoomsOf:
  "r \<in> set (privateRoomsOf db uid) =
     (r \<in> set (rooms db) \<and> \<not> isGroup r \<and> \<not> isPublic r \<and> isRoomMember db (room_id r) uid)"
  by (auto simp: privateRoomsOf_def isRoomMember_iff)

lemma findPrivateRoom_Some:
  "findPrivateRoom db a b = Some r \<Longrightarrow> pairwise_room db a b r"
  by (auto simp: findPrivateRoom_def find_Some_iff pairwise_room_def set_privateRoomsOf
      dest: nth_mem)

lemma findPrivateRoom_None:
  "findPrivateRoom db a b = None \<Longrightarrow> \<not> pairwise_room db a b r"
  by (auto simp: findPrivateRoom_def find_None_iff pairwise_room_def set_privateRoomsOf)

lemma findPrivateRoom_cases:
  "case findPrivateRoom db a b of
     Some r \<Rightarrow> pairwise_room db a b r
   | None \<Rightarrow> \<not> (\<exists>r. pairwise_room db a b r)"
  by (auto split: option.splits dest: findPrivateRoom_Some findPrivateRoom_None)

lemma private_chat_found:
  assumes "boundUser st sid = Some userId"
    and "getUserByWallet (storage st) w = Some recipient"
    and "findPrivateRoom (storage st) userId (user_id recipient) = Some r"
  shows "create_private_chat st sid w now =
           (st\<lparr>socketRooms := insert (sid, room_id r) (socketRooms st)\<rparr>,
            [(Socket sid, RoomCreated r)])"
  using assms by (simp add: create_private_chat_def)

lemma getUser_id: "getUser db uid = Some u \<Longrightarrow> user_id u = uid"
  by (auto simp: getUser_def find_Some_iff)

lemma getUserByWallet_stored: "getUserByWallet db w = Some u \<Longrightarrow> userStored db (user_id u)"
  by (auto simp: getUserByWallet_def userStored_def find_Some_iff)

lemma private_chat_created:
  assumes "boundUser st sid = Some userId"
    and "getUserByWallet (storage st) w = Some recipient"
    and "findPrivateRoom (storage st) userId (user_id recipient) = None"
    and "getUser (storage st) userId = Some cu"
  shows "create_private_chat st sid w now =
           (st\<lparr>storage := with_private_room (storage st) now cu recipient,
               socketRooms := insert (sid, rooms_seq (storage st)) (socketRooms st)\<rparr>,
            [(Socket sid, RoomCreated (new_private_room (storage st) now cu recipient))])"
proof -
  have id: "user_id cu = userId" by (rule getUser_id [OF assms(4)])
  have us: "userStored (storage st) userId" by (rule getUser_stored [OF assms(4)])
  have rs: "userStored (storage st) (user_id recipient)"
    by (rule getUserByWallet_stored [OF assms(2)])
  show ?thesis
    using assms id us rs
    by (simp add: create_private_chat_def createRoom_def addRoomMember_def Let_def
        roomStored_def userStored_def with_private_room_def new_private_room_def)
qed

lemma with_private_room_found:
  assumes "findPrivateRoom db (user_id cu) (user_id recipient) = None"
  shows "\<exists>r. findPrivateRoom (with_private_room db now cu recipient) (user_id cu) (user_id recipient)
               = Some r \<and> room_id r = rooms_seq db"
proof -
  let ?db' = "with_private_room db now cu recipient"
  let ?new = "new_private_room db now cu recipient"
  have "pairwise_room ?db' (user_id cu) (user_id recipient) ?new"
    by (simp add: pairwise_room_def with_private_room_def new_private_room_def isRoomMember_iff)
  then obtain r where r: "findPrivateRoom ?db' (user_id cu) (user_id recipient) = Some r"
    using findPrivateRoom_None by (cases "findPrivateRoom ?db' (user_id cu) (user_id recipient)") auto
  have pr: "pairwise_room ?db' (user_id cu) (user_id recipient) r"
    by (rule findPrivateRoom_Some [OF r])
  have "room_id r = rooms_seq db"
  proof (rule ccontr)
    assume neq: "room_id r \<noteq> rooms_seq db"
    with pr have "pairwise_room db (user_id cu) (user_id recipient) r"
      by (auto simp: pairwise_room_def with_private_room_def new_private_room_def isRoomMember_iff)
    with findPrivateRoom_None [OF assms] show False by blast
  qed
  with r show ?thesis by blast
qed

text \<open>
  C4. \<open>findPrivateRoom\<close> returns a pairwise room of the two users when it returns a
  room, and returns none only when the store has no pairwise room of the two. For a
  socket bound to a stored user and a wallet address of a stored recipient, two
  successive \<open>create_private_chat\<close> calls each emit \<open>room_created\<close> to the caller,
  with the same room id. The room the first call announces is a pairwise room of
  caller and recipient in the store it leaves: the room \<open>findPrivateRoom\<close> found, the
  store unchanged, when there was one, and else the one room the call has added. The
  second call announces the room \<open>findPrivateRoom\<close> returns on that store and
  leaves the store as it was, so it creates no duplicate.
\<close>

theorem findPrivateRoom_pairwise:
  assumes "boundUser st sid = Some userId"
    and "getUser (storage st) userId = Some cu"
    and "getUserByWallet (storage st) w = Some recipient"
  shows "(case findPrivateRoom db a b of
            Some r \<Rightarrow> pairwise_room db a b r
          | None \<Rightarrow> \<not> (\<exists>r. pairwise_room db a b r))
       \<and> (case create_private_chat st sid w now of
            (st1, ev1) \<Rightarrow>
              (case create_private_chat st1 sid w now' of
                 (st2, ev2) \<Rightarrow>
                   (\<exists>r1 r2. ev1 = [(Socket sid, RoomCreated r1)] \<and>
                            ev2 = [(Socket sid, RoomCreated r2)] \<and>
                            room_id r1 = room_id r2 \<and>
                            pairwise_room (storage st1) userId (user_id recipient) r1 \<and>
                            pairwise_room (storage st2) userId (user_id recipient) r2 \<and>
                            findPrivateRoom (storage st1) userId (user_id recipient) = Some r2 \<and>
                            (case findPrivateRoom (storage st) userId (user_id recipient) of
                               Some r \<Rightarrow> r1 = r \<and> storage st1 = storage st
                             | None \<Rightarrow> rooms (storage st1) = rooms (storage st) @ [r1])) \<and>
                   storage st2 = storage st1 \<and>
                   rooms (storage st2) = rooms (storage st1)))"
proof -
  have id: "user_id cu = userId" by (rule getUser_id [OF assms(2)])
  have twice: "case create_private_chat st sid w now of
            (st1, ev1) \<Rightarrow>
              (case create_private_chat st1 sid w now' of
                 (st2, ev2) \<Rightarrow>
                   (\<exists>r1 r2. ev1 = [(Socket sid, RoomCreated r1)] \<and>
                            ev2 = [(Socket sid, RoomCreated r2)] \<and>
                            room_id r1 = room_id r2 \<and>
                            pairwise_room (storage st1) userId (user_id recipient) r1 \<and>
                            pairwise_room (storage st2) userId (user_id recipient) r2 \<and>
                            findPrivateRoom (storage st1) userId (user_id recipient) = Some r2 \<and>
                            (case findPrivateRoom (storage st) userId (user_id recipient) of
                               Some r \<Rightarrow> r1 = r \<and> storage st1 = storage st
                             | None \<Rightarrow> rooms (storage st1) = rooms (storage st) @ [r1])) \<and>
                   storage st2 = storage st1 \<and>
                   rooms (storage st2) = rooms (storage st1))"
  proof (cases "findPrivateRoom (storage st) userId (user_id recipient)")
    case (Some r)
    let ?st1 = "st\<lparr>socketRooms := insert (sid, room_id r) (socketRooms st)\<rparr>"
    have c1: "create_private_chat st sid w now = (?st1, [(Socket sid, RoomCreated r)])"
      by (rule private_chat_found [OF assms(1,3) Some])
    have b1: "boundUser ?st1 sid = Some userId" using assms(1) by (simp add: boundUser_def)
    have w1: "getUserByWallet (storage ?st1) w = Some recipient" using assms(3) by simp
    have f1: "findPrivateRoom (storage ?st1) userId (user_id recipient) = Some r"
      using Some by simp
    have c2: "create_private_chat ?st1 sid w now' =
              (?st1\<lparr>socketRooms := insert (sid, room_id r) (socketRooms ?st1)\<rparr>,
               [(Socket sid, RoomCreated r)])"
      by (rule private_chat_found [OF b1 w1 f1])
    have p: "pairwise_room (storage st) userId (user_id recipient) r"
      by (rule findPrivateRoom_Some [OF Some])
    show ?thesis using p Some by (simp add: c1 c2)
  next
    case None
    let ?db1 = "with_private_room (storage st) now cu recipient"
    let ?new = "new_private_room (storage st) now cu recipient"
    let ?st1 = "st\<lparr>storage := ?db1,
                    socketRooms := insert (sid, rooms_seq (storage st)) (socketRooms st)\<rparr>"
    have c1: "create_private_chat st sid w now = (?st1, [(Socket sid, RoomCreated ?new)])"
      by (rule private_chat_created [OF assms(1,3) None assms(2)])
    have b1: "boundUser ?st1 sid = Some userId" using assms(1) by (simp add: boundUser_def)
    have w1: "getUserByWallet (storage ?st1) w = Some recipient"
      using assms(3) by (simp add: getUserByWallet_def with_private_room_def)
    from with_private_room_found [of "storage st" cu recipient now] None id
    obtain r2 where r2: "findPrivateRoom ?db1 userId (user_id recipient) = Some r2"
      and rid: "room_id r2 = rooms_seq (storage st)" by auto
    have f1: "findPrivateRoom (storage ?st1) userId (user_id recipient) = Some r2"
      using r2 by simp
    have c2: "create_private_chat ?st1 sid w now' =
              (?st1\<lparr>socketRooms := insert (sid, room_id r2) (socketRooms ?st1)\<rparr>,
               [(Socket sid, RoomCreated r2)])"
      by (rule private_chat_found [OF b1 w1 f1])
    have p1: "pairwise_room ?db1 userId (user_id recipient) ?new"
      using id
      by (simp add: pairwise_room_def with_private_room_def new_private_room_def isRoomMember_iff)
    have p2: "pairwise_room ?db1 userId (user_id recipient) r2"
      by (rule findPrivateRoom_Some [OF r2])
    have rooms1: "rooms ?db1 = rooms (storage st) @ [?new]"
      by (simp add: with_private_room_def)
    have nid: "room_id ?new = rooms_seq (storage st)" by (simp add: new_private_room_def)
    show ?thesis using p1 p2 r2 rooms1 None by (simp add: c1 c2 rid nid)
  qed
  show ?thesis using findPrivateRoom_cases [of db a b] twice by blast
qed

theorem findPrivateRoom_pairwise_witness:
  "boundUser chat_server ''s1'' = Some 1
   \<and> getUser (storage chat_server) 1
       = Some \<lparr>user_id = 1, username = Some ''alice'', walletAddress = ''W1'', user_createdAt = 0\<rparr>
   \<and> getUserByWallet (storage chat_server) ''W2''
       = Some \<lparr>user_id = 2, username = Some ''bob'', walletAddress = ''W2'', user_createdAt = 0\<rparr>
   \<and> (case findPrivateRoom chat_db 1 2 of
          Some r \<Rightarrow> pairwise_room chat_db 1 2 r
        | None \<Rightarrow> \<not> (\<exists>r. pairwise_room chat_db 1 2 r))
   \<and> (case create_private_chat chat_server ''s1'' ''W2'' 4000 of
          (st1, ev1) \<Rightarrow>
            (case create_private_chat st1 ''s1'' ''W2'' 5000 of
               (st2, ev2) \<Rightarrow>
                 (\<exists>r1 r2. ev1 = [(Socket ''s1'', RoomCreated r1)] \<and>
                          ev2 = [(Socket ''s1'', RoomCreated r2)] \<and>
                          room_id r1 = room_id r2 \<and>
                          pairwise_room (storage st1) 1
                            (user_id \<lparr>user_id = 2, username = Some ''bob'',
                                      walletAddress = ''W2'', user_createdAt = 0\<rparr>) r1 \<and>
                          pairwise_room (storage st2) 1
                            (user_id \<lparr>user_id = 2, username = Some ''bob'',
                                      walletAddress = ''W2'', user_createdAt = 0\<rparr>) r2 \<and>
                          findPrivateRoom (storage st1) 1
                            (user_id \<lparr>user_id = 2, username = Some ''bob'',
                                      walletAddress = ''W2'', user_createdAt = 0\<rparr>) = Some r2 \<and>
                          (case findPrivateRoom (storage chat_server) 1
                                  (user_id \<lparr>user_id = 2, username = Some ''bob'',
                                            walletAddress = ''W2'', user_createdAt = 0\<rparr>) of
                             Some r \<Rightarrow> r1 = r \<and> storage st1 = storage chat_server
                           | None \<Rightarrow> rooms (storage st1) = rooms (storage chat_server) @ [r1])) \<and>
                 storage st2 = storage st1 \<and>
                 rooms (storage st2) = rooms (storage st1)))"
proof -
  have h1: "boundUser chat_server ''s1'' = Some 1"
    by (simp add: boundUser_def chat_server_def)
  have h2: "getUser (storage chat_server) 1
       = Some \<lparr>user_id = 1, username = Some ''alice'', walletAddress = ''W1'', user_createdAt = 0\<rparr>"
    by (simp add: getUser_def chat_server_def chat_db_def)
  have h3: "getUserByWallet (storage chat_server) ''W2''
       = Some \<lparr>user_id = 2, username = Some ''bob'', walletAddress = ''W2'', user_createdAt = 0\<rparr>"
    by (simp add: getUserByWallet_def chat_server_def chat_db_def)
  show ?thesis
    using h1 h2 h3
      findPrivateRoom_pairwise [OF h1 h2 h3, where db = chat_db and a = 1 and b = 2
        and now = 4000 and now' = 5000]
    by blast
qed

section \<open>Room history\<close>

lemma newest_first_sorted:
  "sorted_wrt (\<lambda>a b. message_createdAt b \<le> message_createdAt a) (newest_first ms)"
proof -
  have "sorted (map (\<lambda>m. - message_createdAt m) (newest_first ms))"
    unfolding newest_first_def by (rule sorted_sort_key)
  then show ?thesis by (simp add: sorted_map)
qed

lemma getRoomMessages_eq:
  "getRoomMessages db rid None =
     rev (take 50 (newest_first (filter (\<lambda>m. message_roomId m = rid) (messages db))))"
  by (simp add: getRoomMessages_def newest_first_def)

lemma getRoomMessages_length:
  "length (getRoomMessages db rid None)
     = min 50 (length (filter (\<lambda>m. message_roomId m = rid) (messages db)))"
  by (simp add: getRoomMessages_eq newest_first_def min.commute)

lemma getRoomMessages_sorted:
  "sorted (map message_createdAt (getRoomMessages db rid None))"
proof -
  let ?xs = "newest_first (filter (\<lambda>m. message_roomId m = rid) (messages db))"
  have "sorted_wrt (\<lambda>a b. message_createdAt b \<le> message_createdAt a) (take 50 ?xs)"
    by (rule sorted_wrt_take) (rule newest_first_sorted)
  then show ?thesis by (simp add: getRoomMessages_eq sorted_map sorted_wrt_rev)
qed

lemma getRoomMessages_recent:
  "\<exists>older. mset (getRoomMessages db rid None) + mset older
              = mset (filter (\<lambda>m. message_roomId m = rid) (messages db))
         \<and> (\<forall>a\<in>set (getRoomMessages db rid None). \<forall>b\<in>set older.
               message_createdAt b \<le> message_createdAt a)"
proof -
  let ?xs = "newest_first (filter (\<lambda>m. message_roomId m = rid) (messages db))"
  have "sorted_wrt (\<lambda>a b. message_createdAt b \<le> message_createdAt a) (take 50 ?xs @ drop 50 ?xs)"
    using newest_first_sorted [of "filter (\<lambda>m. message_roomId m = rid) (messages db)"] by simp
  then have cut: "\<forall>a\<in>set (take 50 ?xs). \<forall>b\<in>set (drop 50 ?xs).
                    message_createdAt b \<le> message_createdAt a"
    unfolding sorted_wrt_append by blast
  have "mset (take 50 ?xs) + mset (drop 50 ?xs) = mset ?xs"
    by (metis append_take_drop_id mset_append)
  then have all: "mset (getRoomMessages db rid None) + mset (drop 50 ?xs)
                    = mset (filter (\<lambda>m. message_roomId m = rid) (messages db))"
    by (simp add: getRoomMessages_eq newest_first_def)
  from cut have "\<forall>a\<in>set (getRoomMessages db rid None). \<forall>b\<in>set (drop 50 ?xs).
                    message_createdAt b \<le> message_createdAt a"
    by (simp add: getRoomMessages_eq)
  with all show ?thesis by blast
qed

lemma getRoomMessages_addRoomMember:
  "addRoomMember db now r u = Some db1 \<Longrightarrow> getRoomMessages db1 rid lim = getRoomMessages db rid lim"
  by (auto simp: getRoomMessages_def addRoomMember_def split: if_splits)

lemma join_room_payload:
  assumes "(tgt, RoomJoined r members msgs reacts) \<in> set (snd (join_room st sid rid now))"
  shows "msgs = map view (getRoomMessages (storage st) rid None)"
  using assms
  by (auto simp: join_room_def notAuthenticated_def Let_def getRoomMessages_addRoomMember
      split: option.splits if_splits)

lemma view_timestamp_map: "map view_timestamp (map view ms) = map message_createdAt ms"
  by (simp add: view_def comp_def)

text \<open>
  C10. Whenever \<open>join_room\<close> emits \<open>room_joined\<close>, the payload's message list has
  at most 50 entries (exactly 50, or all of the room's messages when it has fewer),
  is ordered by timestamp, oldest first, and is made of the room's most recent
  messages: the room's stored messages split into the listed ones and the others, and
  none of the others is newer than a listed one.
\<close>

theorem join_room_history:
  assumes "(tgt, RoomJoined r members msgs reacts) \<in> set (snd (join_room st sid rid now))"
  shows "length msgs \<le> 50
       \<and> length msgs = min 50 (length (filter (\<lambda>m. message_roomId m = rid) (messages (storage st))))
       \<and> sorted (map view_timestamp msgs)
       \<and> (\<exists>recent older.
             msgs = map view recent
           \<and> mset recent + mset older
               = mset (filter (\<lambda>m. message_roomId m = rid) (messages (storage st)))
           \<and> (\<forall>a\<in>set recent. \<forall>b\<in>set older. message_createdAt b \<le> message_createdAt a))"
proof -
  have msgs: "msgs = map view (getRoomMessages (storage st) rid None)"
    by (rule join_room_payload [OF assms])
  have len: "length msgs = min 50 (length (filter (\<lambda>m. message_roomId m = rid) (messages (storage st))))"
    by (simp add: msgs getRoomMessages_length)
  have srt: "sorted (map view_timestamp msgs)"
    unfolding msgs view_timestamp_map by (rule getRoomMessages_sorted)
  from getRoomMessages_recent [of "storage st" rid] msgs
  have "\<exists>recent older.
             msgs = map view recent
           \<and> mset recent + mset older
               = mset (filter (\<lambda>m. message_roomId m = rid) (messages (storage st)))
           \<and> (\<forall>a\<in>set recent. \<forall>b\<in>set older. message_createdAt b \<le> message_createdAt a)"
    by blast
  with len srt show ?thesis by simp
qed

lemma chat_join:
  "(Socket ''s1'',
    RoomJoined
      \<lparr>room_id = 1, room_name = ''Public Chat'', isGroup = True, isPublic = True,
        createdBy = None, room_createdAt = 0\<rparr>
      [(1, Some ''alice''), (2, Some ''bob'')]
      [\<lparr>view_id = 1, view_roomId = 1, view_userId = 1, view_content = ''hello'',
        view_timestamp = 1000, view_expiresAt = Some 31000\<rparr>]
      [(\<lparr>reaction_id = 1, reaction_messageId = 1, reaction_userId = 2, emoji = ''ok'',
          reaction_createdAt = 2000\<rparr>, Some ''bob'', ''W2'')])
   \<in> set (snd (join_room chat_server ''s1'' 1 4000))"
  by (simp add: join_room_def chat_server_def chat_db_def boundUser_def getRoom_def
      isRoomMember_def getRoomMessages_def getRoomMembers_def getMessagesReactions_def
      getUser_def view_def Let_def)

theorem join_room_history_witness:
  "(Socket ''s1'',
    RoomJoined
      \<lparr>room_id = 1, room_name = ''Public Chat'', isGroup = True, isPublic = True,
        createdBy = None, room_createdAt = 0\<rparr>
      [(1, Some ''alice''), (2, Some ''bob'')]
      [\<lparr>view_id = 1, view_roomId = 1, view_userId = 1, view_content = ''hello'',
        view_timestamp = 1000, view_expiresAt = Some 31000\<rparr>]
      [(\<lparr>reaction_id = 1, reaction_messageId = 1, reaction_userId = 2, emoji = ''ok'',
          reaction_createdAt = 2000\<rparr>, Some ''bob'', ''W2'')])
     \<in> set (snd (join_room chat_server ''s1'' 1 4000))
   \<and> length [\<lparr>view_id = 1, view_roomId = 1, view_userId = 1, view_content = ''hello'',
        view_timestamp = 1000, view_expiresAt = Some 31000\<rparr>] \<le> 50
   \<and> length [\<lparr>view_id = 1, view_roomId = 1, view_userId = 1, view_content = ''hello'',
        view_timestamp = 1000, view_expiresAt = Some 31000\<rparr>]
       = min 50 (length (filter (\<lambda>m. message_roomId m = 1) (messages (storage chat_server))))
   \<and> sorted (map view_timestamp
        [\<lparr>view_id = 1, view_roomId = 1, view_userId = 1, view_content = ''hello'',
          view_timestamp = 1000, view_expiresAt = Some 31000\<rparr>])
   \<and> (\<exists>recent older.
         [\<lparr>view_id = 1, view_roomId = 1, view_userId = 1, view_content = ''hello'',
           view_timestamp = 1000, view_expiresAt = Some 31000\<rparr>] = map view recent
       \<and> mset recent + mset older
           = mset (filter (\<lambda>m. message_roomId m = 1) (messages (storage chat_server)))
       \<and> (\<forall>a\<in>set recent. \<forall>b\<in>set older. message_createdAt b \<le> message_createdAt a))"
  by (rule conjI [OF chat_join join_room_history [OF chat_join]])

section \<open>The expiry sweep\<close>

lemma deleteExpiredMessages_exact:
  assumes "deleteExpiredMessages db now = Some (n, db1)"
  shows "messages db1 = filter (\<lambda>m. \<not> expired now m) (messages db)
       \<and> n = length (filter (expired now) (messages db))"
  using assms by (auto simp: deleteExpiredMessages_def Let_def split: if_splits)

lemma sweep_job_emits_nothing: "fst (snd (sweep_job st now)) = []"
  by (simp add: sweep_job_def split: option.splits prod.splits)

lemma sweep_job_rejected: "sweep_job chat_server 60000 = (chat_server, [], SweepError)"
  by (simp add: sweep_job_def deleteExpiredMessages_def chat_server_def chat_db_def expired_def)

text \<open>
  C1. One tick of the sweep, at time 60000, on the chat whose only message expired at
  31000 and has no reaction: the message is deleted, \<open>deleteExpiredMessages\<close> hands
  the job the count 1 (no message id, no room id), and the job emits no event; it only
  logs the count.
\<close>

theorem sweep_job_silent_deletion:
  "deleteExpiredMessages (storage expiring_server) 60000
     = Some (1, chat_db\<lparr>reactions := [], messages := []\<rparr>)
   \<and> sweep_job expiring_server 60000
     = (expiring_server\<lparr>storage := chat_db\<lparr>reactions := [], messages := []\<rparr>\<rparr>, [], Deleted 1)"
  by (simp add: sweep_job_def deleteExpiredMessages_def expiring_server_def chat_server_def
      chat_db_def expired_def)

end
